theory Spec2Isabelle
  imports Main "HOL-Library.Word"
begin

section \<open>The metadata container of \<^verbatim>\<open>include/assimp/metadata.h\<close>\<close>

subsection \<open>Value kinds and entries\<close>

text \<open>
  \<^verbatim>\<open>enum aiType\<close>: the six value kinds and the enumerator \<^verbatim>\<open>FORCE_32BIT\<close>, which is
  no value kind and is the one enumerator that reaches the \<^verbatim>\<open>default\<close> branch of
  \<^verbatim>\<open>transform\<close>.
\<close>

datatype aiType =
  AI_BOOL | AI_INT | AI_UINT64 | AI_FLOAT | AI_AISTRING | AI_AIVECTOR3D | FORCE_32BIT

text \<open>
  A pointer is \<^verbatim>\<open>NULL\<close> (\<open>None\<close>) or the address of a heap block. A pointer may dangle:
  nothing in the type says that the block exists.
\<close>

type_synonym ptr = "nat option"

text \<open>\<^verbatim>\<open>struct aiMetaDataEntry { aiType type; void* data; }\<close>\<close>

record aiMetaDataEntry =
  type :: aiType
  data :: ptr

subsection \<open>The concrete value types\<close>

text \<open>
  A \<^verbatim>\<open>float\<close> is its 32-bit representation: the code only copies floats, it never
  computes with them, and equality of floats below is equality of representations.
\<close>

type_synonym float32 = "32 word"

text \<open>
  Modelled from the spec: the declarations of \<^verbatim>\<open>aiString\<close> and \<^verbatim>\<open>aiVector3D\<close> are not in
  \<^verbatim>\<open>metadata.h\<close>. The spec takes the string as an opaque, comparable, copyable value and
  the vector as three Float32 components.
\<close>

type_synonym aiString = string

datatype aiVector3D = Vector3D float32 float32 float32

text \<open>
  The templates \<^verbatim>\<open>Set<T>\<close> and \<^verbatim>\<open>Get<T>\<close> are instantiated at a static type \<open>T\<close>. A
  \<open>val\<close> is a value together with its static type: the constructor is the type.
\<close>

datatype ctype = T_bool | T_int | T_uint64_t | T_float | T_aiString | T_aiVector3D

datatype val =
  V_bool bool
| V_int "32 word"
| V_uint64_t "64 word"
| V_float float32
| V_aiString aiString
| V_aiVector3D aiVector3D

fun typeof :: "val \<Rightarrow> ctype" where
  "typeof (V_bool _) = T_bool"
| "typeof (V_int _) = T_int"
| "typeof (V_uint64_t _) = T_uint64_t"
| "typeof (V_float _) = T_float"
| "typeof (V_aiString _) = T_aiString"
| "typeof (V_aiVector3D _) = T_aiVector3D"

text \<open>
  The overload set \<^verbatim>\<open>GetAiType\<close>: six functions, one for each parameter type, each
  ignoring its (unnamed) argument.
\<close>

fun GetAiType :: "val \<Rightarrow> aiType" where
  "GetAiType (V_bool _) = AI_BOOL"
| "GetAiType (V_int _) = AI_INT"
| "GetAiType (V_uint64_t _) = AI_UINT64"
| "GetAiType (V_float _) = AI_FLOAT"
| "GetAiType (V_aiString _) = AI_AISTRING"
| "GetAiType (V_aiVector3D _) = AI_AIVECTOR3D"

subsection \<open>Errors and the heap\<close>

text \<open>
  \<open>Assert_failed\<close> is a failed \<^verbatim>\<open>assert\<close> (assertions are taken as enabled).
  \<open>Undefined_behaviour\<close> is an access the C++ standard gives no meaning to: through a
  null or dangling pointer, outside the bounds of an array, or at the wrong type.
\<close>

datatype error = Assert_failed | Undefined_behaviour

text \<open>
  The heap is a list of blocks; the address of a block is its position, and a released
  block is \<open>None\<close>. A block is an array of keys (\<^verbatim>\<open>new aiString[n]\<close>), an array of
  entries (\<^verbatim>\<open>new aiMetaDataEntry[n]\<close>) or one value (\<^verbatim>\<open>new T(value)\<close>).
\<close>

datatype obj =
  Key_array "aiString list"
| Entry_array "aiMetaDataEntry list"
| Scalar val

type_synonym heap = "obj option list"

definition load :: "heap \<Rightarrow> ptr \<Rightarrow> obj option" where
  "load h p = (case p of None \<Rightarrow> None | Some a \<Rightarrow> if a < length h then h ! a else None)"

text \<open>\<^verbatim>\<open>new T(value)\<close>: a fresh block holding a copy of the value. Memory is unbounded.\<close>

definition operator_new :: "heap \<Rightarrow> val \<Rightarrow> nat \<times> heap" where
  "operator_new h v = (length h, h @ [Some (Scalar v)])"

text \<open>
  \<^verbatim>\<open>operator delete(void*)\<close>: nothing on \<^verbatim>\<open>NULL\<close>, releases a live block obtained from
  \<^verbatim>\<open>new\<close>, undefined on anything else.
\<close>

definition operator_delete :: "ptr \<Rightarrow> heap \<Rightarrow> error + heap" where
  "operator_delete p h =
     (case p of
        None \<Rightarrow> Inr h
      | Some a \<Rightarrow>
          (case load h p of
             Some (Scalar _) \<Rightarrow> Inr (h[a := None])
           | _ \<Rightarrow> Inl Undefined_behaviour))"

text \<open>\<^verbatim>\<open>delete [] p\<close> on a pointer that is not null: releases a live array block.\<close>

definition delete_array :: "nat \<Rightarrow> heap \<Rightarrow> error + heap" where
  "delete_array a h =
     (case load h (Some a) of
        Some (Key_array _) \<Rightarrow> Inr (h[a := None])
      | Some (Entry_array _) \<Rightarrow> Inr (h[a := None])
      | _ \<Rightarrow> Inl Undefined_behaviour)"

text \<open>\<^verbatim>\<open>mKeys[i]\<close> and \<^verbatim>\<open>mValues[i]\<close> as rvalues.\<close>

definition read_key :: "heap \<Rightarrow> ptr \<Rightarrow> nat \<Rightarrow> error + aiString" where
  "read_key h p i =
     (case load h p of
        Some (Key_array ks) \<Rightarrow> if i < length ks then Inr (ks ! i) else Inl Undefined_behaviour
      | _ \<Rightarrow> Inl Undefined_behaviour)"

definition read_entry :: "heap \<Rightarrow> ptr \<Rightarrow> nat \<Rightarrow> error + aiMetaDataEntry" where
  "read_entry h p i =
     (case load h p of
        Some (Entry_array es) \<Rightarrow> if i < length es then Inr (es ! i) else Inl Undefined_behaviour
      | _ \<Rightarrow> Inl Undefined_behaviour)"

text \<open>
  \<^verbatim>\<open>mKeys[i] = key\<close> with \<^verbatim>\<open>key\<close> a \<^verbatim>\<open>std::string\<close>. The assignment operator of
  \<^verbatim>\<open>aiString\<close> is not in \<^verbatim>\<open>metadata.h\<close>; it is the parameter \<open>asg\<close>, from the old key
  and the \<^verbatim>\<open>std::string\<close> to the new key.
\<close>

definition write_key ::
  "(aiString \<Rightarrow> string \<Rightarrow> aiString) \<Rightarrow> heap \<Rightarrow> ptr \<Rightarrow> nat \<Rightarrow> string \<Rightarrow> error + heap" where
  "write_key asg h p i key =
     (case p of
        None \<Rightarrow> Inl Undefined_behaviour
      | Some a \<Rightarrow>
          (case load h p of
             Some (Key_array ks) \<Rightarrow>
               if i < length ks then Inr (h[a := Some (Key_array (ks[i := asg (ks ! i) key]))])
               else Inl Undefined_behaviour
           | _ \<Rightarrow> Inl Undefined_behaviour))"

text \<open>\<^verbatim>\<open>mValues[i].type = t\<close> and \<^verbatim>\<open>mValues[i].data = d\<close>.\<close>

definition write_entry ::
  "(aiMetaDataEntry \<Rightarrow> aiMetaDataEntry) \<Rightarrow> heap \<Rightarrow> ptr \<Rightarrow> nat \<Rightarrow> error + heap" where
  "write_entry f h p i =
     (case p of
        None \<Rightarrow> Inl Undefined_behaviour
      | Some a \<Rightarrow>
          (case load h p of
             Some (Entry_array es) \<Rightarrow>
               if i < length es then Inr (h[a := Some (Entry_array (es[i := f (es ! i)]))])
               else Inl Undefined_behaviour
           | _ \<Rightarrow> Inl Undefined_behaviour))"

text \<open>
  \<^verbatim>\<open>*static_cast<T*>(p)\<close> as an rvalue: the block at \<open>p\<close> has to hold a value of type
  \<open>T\<close>.
\<close>

definition deref :: "ctype \<Rightarrow> heap \<Rightarrow> ptr \<Rightarrow> error + val" where
  "deref T h p =
     (case load h p of
        Some (Scalar v) \<Rightarrow> if typeof v = T then Inr v else Inl Undefined_behaviour
      | _ \<Rightarrow> Inl Undefined_behaviour)"

subsection \<open>transform\<close>

text \<open>
  \<^verbatim>\<open>template<typename callable> void transform(aiType type, void* data, callable c)\<close>.
  The operation \<open>c\<close> takes a typed pointer and acts on a state \<open>'s\<close>.

  Each case of the switch is the statement \<^verbatim>\<open>callable(static_cast<T*>(data));\<close>. There
  \<^verbatim>\<open>callable\<close> is the template's type parameter, not the function parameter \<^verbatim>\<open>c\<close>: the
  statement is an explicit type conversion in functional notation, which converts the
  typed pointer to the type \<^verbatim>\<open>callable\<close> and discards the result. With the function
  pointer type \<^verbatim>\<open>void (*)(void*)\<close> that the destructor passes, the conversion has no
  effect. So no case uses \<open>c\<close>, and the state is returned as it was.
\<close>

definition transform :: "aiType \<Rightarrow> ptr \<Rightarrow> (ctype \<times> ptr \<Rightarrow> 's \<Rightarrow> error + 's) \<Rightarrow> 's \<Rightarrow> error + 's" where
  "transform t d c s =
     (case t of
        AI_BOOL \<Rightarrow> Inr s
      | AI_INT \<Rightarrow> Inr s
      | AI_UINT64 \<Rightarrow> Inr s
      | AI_FLOAT \<Rightarrow> Inr s
      | AI_AISTRING \<Rightarrow> Inr s
      | AI_AIVECTOR3D \<Rightarrow> Inr s
      | FORCE_32BIT \<Rightarrow> Inl Assert_failed)"

text \<open>The convenience overload \<^verbatim>\<open>transform(aiMetaDataEntry entry, callable c)\<close>.\<close>

definition transform_entry ::
  "aiMetaDataEntry \<Rightarrow> (ctype \<times> ptr \<Rightarrow> 's \<Rightarrow> error + 's) \<Rightarrow> 's \<Rightarrow> error + 's" where
  "transform_entry entry c s = transform (type entry) (data entry) c s"

subsection \<open>The store\<close>

text \<open>
  \<^verbatim>\<open>struct aiMetadata\<close>. \<^verbatim>\<open>unsigned int\<close> is a natural number: the code only compares
  indices with \<^verbatim>\<open>mNumProperties\<close> and counts up to it, so nothing wraps around.
\<close>

record aiMetadata =
  mNumProperties :: nat
  mKeys :: ptr
  mValues :: ptr

text \<open>The constructor \<^verbatim>\<open>aiMetadata()\<close>.\<close>

definition aiMetadata_ctor :: aiMetadata where
  "aiMetadata_ctor = \<lparr>mNumProperties = 0, mKeys = None, mValues = None\<rparr>"

text \<open>
  The loop of the destructor, from index \<open>i\<close> on. The operation handed to \<^verbatim>\<open>transform\<close> is
  \<^verbatim>\<open>(void (*)(void*))(operator delete)\<close>.
\<close>

function delete_entries :: "aiMetadata \<Rightarrow> nat \<Rightarrow> heap \<Rightarrow> error + heap" where
  "delete_entries m i h =
     (if i < mNumProperties m then
        (case read_entry h (mValues m) i of
           Inl e \<Rightarrow> Inl e
         | Inr entry \<Rightarrow>
             (case transform_entry entry (\<lambda>(T, p). operator_delete p) h of
                Inl e \<Rightarrow> Inl e
              | Inr h' \<Rightarrow> delete_entries m (Suc i) h'))
      else Inr h)"
  by pat_completeness auto
termination
  by (relation "measure (\<lambda>(m, i, h). mNumProperties m - i)") auto

declare delete_entries.simps [simp del]

text \<open>The destructor \<^verbatim>\<open>~aiMetadata()\<close>.\<close>

definition aiMetadata_dtor :: "aiMetadata \<Rightarrow> heap \<Rightarrow> error + heap" where
  "aiMetadata_dtor m h =
     (case (case mKeys m of None \<Rightarrow> Inr h | Some a \<Rightarrow> delete_array a h) of
        Inl e \<Rightarrow> Inl e
      | Inr h1 \<Rightarrow>
          (case mValues m of
             None \<Rightarrow> Inr h1
           | Some a \<Rightarrow>
               (case delete_entries m 0 h1 of
                  Inl e \<Rightarrow> Inl e
                | Inr h2 \<Rightarrow> delete_array a h2)))"

text \<open>
  \<^verbatim>\<open>Set<T>(index, key, value)\<close>. The member functions take the store's fields and the
  heap and return both, so that what they change and what they leave is a theorem.
  \<^verbatim>\<open>value\<close> and \<^verbatim>\<open>out\<close> are the caller's own objects, outside the store's storage.
\<close>

definition Set ::
  "(aiString \<Rightarrow> string \<Rightarrow> aiString) \<Rightarrow> aiMetadata \<Rightarrow> heap \<Rightarrow> nat \<Rightarrow> string \<Rightarrow> val
     \<Rightarrow> error + aiMetadata \<times> heap" where
  "Set asg m h index key v =
     (if \<not> index < mNumProperties m then Inl Assert_failed
      else
        (case write_key asg h (mKeys m) index key of
           Inl e \<Rightarrow> Inl e
         | Inr h1 \<Rightarrow>
             (case write_entry (\<lambda>e. e\<lparr>type := GetAiType v\<rparr>) h1 (mValues m) index of
                Inl e \<Rightarrow> Inl e
              | Inr h2 \<Rightarrow>
                  (case operator_new h2 v of
                     (a, h3) \<Rightarrow>
                       (case write_entry (\<lambda>e. e\<lparr>data := Some a\<rparr>) h3 (mValues m) index of
                          Inl e \<Rightarrow> Inl e
                        | Inr h4 \<Rightarrow> Inr (m, h4))))))"

text \<open>
  \<^verbatim>\<open>Get<T>(index, value)\<close>: the result is the returned \<^verbatim>\<open>bool\<close> and the content of
  \<^verbatim>\<open>value\<close> after the call.
\<close>

definition Get ::
  "aiMetadata \<Rightarrow> heap \<Rightarrow> nat \<Rightarrow> val \<Rightarrow> error + (bool \<times> val) \<times> aiMetadata \<times> heap" where
  "Get m h index out =
     (case read_entry h (mValues m) index of
        Inl e \<Rightarrow> Inl e
      | Inr entry \<Rightarrow>
          if GetAiType out \<noteq> type entry then Inr ((False, out), m, h)
          else
            (case deref (typeof out) h (data entry) of
               Inl e \<Rightarrow> Inl e
             | Inr x \<Rightarrow> Inr ((True, x), m, h)))"

text \<open>\<^verbatim>\<open>Get<T>(key, value)\<close>: the loop from index \<open>i\<close> on, and the member function.\<close>

function Get_key_from ::
  "aiMetadata \<Rightarrow> heap \<Rightarrow> aiString \<Rightarrow> val \<Rightarrow> nat \<Rightarrow> error + (bool \<times> val) \<times> aiMetadata \<times> heap" where
  "Get_key_from m h key out i =
     (if i < mNumProperties m then
        (case read_key h (mKeys m) i of
           Inl e \<Rightarrow> Inl e
         | Inr k \<Rightarrow> if k = key then Get m h i out else Get_key_from m h key out (Suc i))
      else Inr ((False, out), m, h))"
  by pat_completeness auto
termination
  by (relation "measure (\<lambda>(m, h, key, out, i). mNumProperties m - i)") auto

declare Get_key_from.simps [simp del]

definition Get_key ::
  "aiMetadata \<Rightarrow> heap \<Rightarrow> aiString \<Rightarrow> val \<Rightarrow> error + (bool \<times> val) \<times> aiMetadata \<times> heap" where
  "Get_key m h key out = Get_key_from m h key out 0"

subsection \<open>Well-formed stores and example stores\<close>

text \<open>
  The comments on the fields of \<^verbatim>\<open>aiMetadata\<close> say that \<^verbatim>\<open>mKeys\<close> and \<^verbatim>\<open>mValues\<close> are
  not null and that \<^verbatim>\<open>mNumProperties\<close> is the length of both arrays. Nothing is asked
  of the entries themselves: \<^verbatim>\<open>new aiMetaDataEntry[n]\<close> leaves them uninitialised.
\<close>

definition arrays_ok :: "aiMetadata \<Rightarrow> heap \<Rightarrow> bool" where
  "arrays_ok m h =
     (case load h (mKeys m) of
        Some (Key_array ks) \<Rightarrow>
          (case load h (mValues m) of
             Some (Entry_array es) \<Rightarrow>
               length ks = mNumProperties m \<and> length es = mNumProperties m
           | _ \<Rightarrow> False)
      | _ \<Rightarrow> False)"

text \<open>A store with the one property \<^verbatim>\<open>"k"\<close>, the \<^verbatim>\<open>int\<close> 7.\<close>

definition one_store :: aiMetadata where
  "one_store = \<lparr>mNumProperties = 1, mKeys = Some 0, mValues = Some 1\<rparr>"

definition one_heap :: heap where
  "one_heap =
     [Some (Key_array [''k'']),
      Some (Entry_array [\<lparr>type = AI_INT, data = Some 2\<rparr>]),
      Some (Scalar (V_int 7))]"

text \<open>
  The store of the spec's key lookup example: keys \<^verbatim>\<open>"a", "b", "a"\<close> with the values
  \<^verbatim>\<open>1\<close>, \<^verbatim>\<open>2.0f\<close> (the bits \<^verbatim>\<open>0x40000000\<close>) and \<^verbatim>\<open>true\<close>.
\<close>

definition aba_store :: aiMetadata where
  "aba_store = \<lparr>mNumProperties = 3, mKeys = Some 0, mValues = Some 1\<rparr>"

definition aba_heap :: heap where
  "aba_heap =
     [Some (Key_array [''a'', ''b'', ''a'']),
      Some (Entry_array
        [\<lparr>type = AI_INT, data = Some 2\<rparr>,
         \<lparr>type = AI_FLOAT, data = Some 3\<rparr>,
         \<lparr>type = AI_BOOL, data = Some 4\<rparr>]),
      Some (Scalar (V_int 1)),
      Some (Scalar (V_float 0x40000000)),
      Some (Scalar (V_bool True))]"

text \<open>The assignment of a \<^verbatim>\<open>std::string\<close> to a key that the examples use: a plain copy.\<close>

definition copy_key :: "aiString \<Rightarrow> string \<Rightarrow> aiString" where
  "copy_key old s = s"

text \<open>
  The lookup as the spec words it: the first index below \<open>n\<close>, in increasing order,
  whose key equals \<open>key\<close>, if there is one.
\<close>

definition first_match :: "aiString list \<Rightarrow> nat \<Rightarrow> aiString \<Rightarrow> nat option" where
  "first_match ks n key = find (\<lambda>j. ks ! j = key) [0..<n]"

section \<open>Properties\<close>

subsection \<open>The type registry\<close>

lemma GetAiType_eq_iff: "(GetAiType v = GetAiType w) = (typeof v = typeof w)"
  by (cases v; cases w) simp_all

text \<open>
  C9. \<^verbatim>\<open>GetAiType\<close> is defined on each of the six concrete types by its own rule. Two
  values have the same kind exactly when they have the same type, so the mapping from
  types to kinds is well defined and injective; and its range is exactly the six value
  kinds, so each value kind is the kind of one and only one concrete type.
  \<^verbatim>\<open>FORCE_32BIT\<close> is the kind of no type.
\<close>

theorem GetAiType_registry:
  "((GetAiType v = GetAiType w) = (typeof v = typeof w)) \<and>
   range GetAiType = {AI_BOOL, AI_INT, AI_UINT64, AI_FLOAT, AI_AISTRING, AI_AIVECTOR3D}"
proof
  show "(GetAiType v = GetAiType w) = (typeof v = typeof w)"
    by (rule GetAiType_eq_iff)
next
  have "GetAiType x \<in> {AI_BOOL, AI_INT, AI_UINT64, AI_FLOAT, AI_AISTRING, AI_AIVECTOR3D}" for x
    by (cases x) simp_all
  moreover have "AI_BOOL \<in> range GetAiType" using GetAiType.simps(1) by (metis rangeI)
  moreover have "AI_INT \<in> range GetAiType" using GetAiType.simps(2) by (metis rangeI)
  moreover have "AI_UINT64 \<in> range GetAiType" using GetAiType.simps(3) by (metis rangeI)
  moreover have "AI_FLOAT \<in> range GetAiType" using GetAiType.simps(4) by (metis rangeI)
  moreover have "AI_AISTRING \<in> range GetAiType" using GetAiType.simps(5) by (metis rangeI)
  moreover have "AI_AIVECTOR3D \<in> range GetAiType" using GetAiType.simps(6) by (metis rangeI)
  ultimately show
    "range GetAiType = {AI_BOOL, AI_INT, AI_UINT64, AI_FLOAT, AI_AISTRING, AI_AIVECTOR3D}"
    by blast
qed

subsection \<open>Dispatch\<close>

text \<open>
  Whatever the operation is, \<^verbatim>\<open>transform\<close> returns the state it was given on the six
  value kinds and fails the assertion on \<^verbatim>\<open>FORCE_32BIT\<close>.
\<close>

lemma transform_unused:
  "transform t d c s = (if t = FORCE_32BIT then Inl Assert_failed else Inr s)"
  by (cases t) (simp_all add: transform_def)

text \<open>
  C4. The claim is that \<^verbatim>\<open>transform\<close> calls the operation once with the re-typed
  pointer. Here the operation appends the pointer it is called with to a log. Dispatching
  on an \<^verbatim>\<open>int\<close> entry leaves the log empty: the operation was not called at all.
\<close>

theorem transform_calls_nothing:
  "transform AI_INT (Some 2) (\<lambda>tp log. Inr (log @ [tp])) [] = Inr []"
  by (simp add: transform_def)

subsection \<open>Get by index\<close>

text \<open>
  C1. If the entry at index \<open>i\<close> has kind \<open>K\<close> and the static type of \<open>out\<close> maps to
  another kind, \<^verbatim>\<open>Get(i, out)\<close> returns \<^verbatim>\<open>false\<close> and \<open>out\<close> keeps its value (and so
  do the store and the heap).
\<close>

theorem Get_type_mismatch:
  assumes "read_entry h (mValues m) i = Inr e" and "type e = K" and "GetAiType out \<noteq> K"
  shows "Get m h i out = Inr ((False, out), m, h)"
  using assms by (simp add: Get_def)

theorem Get_type_mismatch_witness:
  "read_entry one_heap (mValues one_store) 0 = Inr \<lparr>type = AI_INT, data = Some 2\<rparr> \<and>
   GetAiType (V_float 5) \<noteq> AI_INT \<and>
   Get one_store one_heap 0 (V_float 5) = Inr ((False, V_float 5), one_store, one_heap)"
proof -
  have a: "read_entry one_heap (mValues one_store) 0 = Inr \<lparr>type = AI_INT, data = Some 2\<rparr>"
    by (simp add: read_entry_def load_def one_heap_def one_store_def)
  have b: "type \<lparr>type = AI_INT, data = Some 2\<rparr> = AI_INT" by simp
  have c: "GetAiType (V_float 5) \<noteq> AI_INT" by simp
  show ?thesis using a c Get_type_mismatch [OF a b c] by simp
qed

subsection \<open>Destruction\<close>

text \<open>
  C8. The destructor of a default-constructed store returns with the heap as it was:
  both pointers are null, so nothing is released and no entry is looked at.
\<close>

theorem dtor_default_constructed: "aiMetadata_dtor aiMetadata_ctor h = Inr h"
  by (simp add: aiMetadata_dtor_def aiMetadata_ctor_def)

lemma one_store_fields:
  "mNumProperties one_store = 1" "mKeys one_store = Some 0" "mValues one_store = Some 1"
  by (simp_all add: one_store_def)

lemma one_arrays_ok: "arrays_ok one_store one_heap"
  by (simp add: arrays_ok_def load_def one_store_fields one_heap_def)

lemma aba_store_fields:
  "mNumProperties aba_store = 3" "mKeys aba_store = Some 0" "mValues aba_store = Some 1"
  by (simp_all add: aba_store_def)

text \<open>
  C6. The store \<open>one_store\<close> holds one \<^verbatim>\<open>int\<close> in block 2. The destructor releases
  the key array and the entry array, and returns with block 2 still allocated: the
  dispatch in its loop never calls \<^verbatim>\<open>operator delete\<close>, so the value is released by
  nobody.
\<close>

theorem dtor_leaves_value_allocated:
  "aiMetadata_dtor one_store one_heap = Inr [None, None, Some (Scalar (V_int 7))]"
proof -
  let ?h1 = "[None, Some (Entry_array [\<lparr>type = AI_INT, data = Some 2\<rparr>]), Some (Scalar (V_int 7))]"
  have keys: "delete_array 0 one_heap = Inr ?h1"
    by (simp add: delete_array_def load_def one_heap_def)
  have last: "delete_entries one_store (Suc 0) ?h1 = Inr ?h1"
    by (subst delete_entries.simps) (simp add: one_store_fields)
  have loop: "delete_entries one_store 0 ?h1 = Inr ?h1"
    by (subst delete_entries.simps)
       (simp add: last one_store_fields read_entry_def load_def transform_entry_def transform_def)
  have vals: "delete_array (Suc 0) ?h1 = Inr [None, None, Some (Scalar (V_int 7))]"
    by (simp add: delete_array_def load_def)
  show ?thesis
    by (simp add: aiMetadata_dtor_def keys loop vals one_store_fields)
qed

subsection \<open>Set, and Get after Set\<close>

lemma arrays_okD:
  assumes "arrays_ok m h"
  obtains ka va ks es where
    "mKeys m = Some ka" "mValues m = Some va" "ka < length h" "va < length h"
    "h ! ka = Some (Key_array ks)" "h ! va = Some (Entry_array es)"
    "length ks = mNumProperties m" "length es = mNumProperties m" "ka \<noteq> va"
proof -
  from assms obtain ks es where
    k: "load h (mKeys m) = Some (Key_array ks)" and e: "load h (mValues m) = Some (Entry_array es)"
    and l: "length ks = mNumProperties m" "length es = mNumProperties m"
    unfolding arrays_ok_def
    by (cases "load h (mKeys m)"; cases "load h (mValues m)";
        cases "the (load h (mKeys m))"; cases "the (load h (mValues m))") simp_all
  from k obtain ka where ka: "mKeys m = Some ka" "ka < length h" "h ! ka = Some (Key_array ks)"
    by (auto simp: load_def split: option.splits if_splits)
  from e obtain va where va: "mValues m = Some va" "va < length h" "h ! va = Some (Entry_array es)"
    by (auto simp: load_def split: option.splits if_splits)
  from ka va have "ka \<noteq> va" by auto
  with ka va l show thesis using that by blast
qed

lemma entry_overwrite:
  "(e::aiMetaDataEntry)\<lparr>type := t, data := d\<rparr> = \<lparr>type = t, data = d\<rparr>"
  by (cases e) simp

text \<open>
  The heap after \<^verbatim>\<open>Set\<close> on well-formed arrays: the key and the entry at \<open>i\<close> are
  overwritten, one block is added at the end, and nothing else changes.
\<close>

lemma Set_result:
  assumes "mKeys m = Some ka" "mValues m = Some va" "ka < length h" "va < length h"
    "h ! ka = Some (Key_array ks)" "h ! va = Some (Entry_array es)"
    "i < length ks" "i < length es" "ka \<noteq> va" "i < mNumProperties m"
  shows "Set asg m h i k v = Inr (m,
           (h[ka := Some (Key_array (ks[i := asg (ks ! i) k])),
              va := Some (Entry_array (es[i := \<lparr>type = GetAiType v, data = Some (length h)\<rparr>]))])
            @ [Some (Scalar v)])"
  using assms
  by (simp add: Set_def write_key_def write_entry_def load_def operator_new_def nth_append
      list_update_append entry_overwrite)

lemma Get_after:
  assumes "mValues m = Some va" "va < length h'" "length h' = n"
    "h' ! va = Some (Entry_array es)" "i < length es"
    "es ! i = \<lparr>type = GetAiType v, data = Some n\<rparr>"
  shows "Get m (h' @ [Some (Scalar v)]) i out =
           Inr ((typeof out = typeof v, if typeof out = typeof v then v else out),
                m, h' @ [Some (Scalar v)])"
  using assms GetAiType_eq_iff [of out v]
  by (simp add: Get_def read_entry_def load_def nth_append deref_def)

text \<open>
  C2. On a store whose arrays have \<^verbatim>\<open>mNumProperties\<close> elements, for an index \<open>i\<close> below
  \<^verbatim>\<open>mNumProperties\<close>, any key and any value \<open>v\<close> of any of the six types:
  \<^verbatim>\<open>Set(i, k, v)\<close> returns, and \<^verbatim>\<open>Get(i, out)\<close> with \<open>out\<close> of the type of \<open>v\<close> then
  returns \<^verbatim>\<open>true\<close> with \<open>out\<close> equal to \<open>v\<close>.
\<close>

theorem Set_Get_roundtrip:
  assumes "arrays_ok m h" and "i < mNumProperties m" and "typeof out = typeof v"
  shows "\<exists>h'. Set asg m h i k v = Inr (m, h') \<and> Get m h' i out = Inr ((True, v), m, h')"
proof -
  from assms(1) obtain ka va ks es where f:
    "mKeys m = Some ka" "mValues m = Some va" "ka < length h" "va < length h"
    "h ! ka = Some (Key_array ks)" "h ! va = Some (Entry_array es)"
    "length ks = mNumProperties m" "length es = mNumProperties m" "ka \<noteq> va"
    by (rule arrays_okD)
  let ?es' = "es[i := \<lparr>type = GetAiType v, data = Some (length h)\<rparr>]"
  let ?h' = "h[ka := Some (Key_array (ks[i := asg (ks ! i) k])), va := Some (Entry_array ?es')]"
  have s: "Set asg m h i k v = Inr (m, ?h' @ [Some (Scalar v)])"
    using f assms(2) by (intro Set_result) simp_all
  have g: "Get m (?h' @ [Some (Scalar v)]) i out =
             Inr ((typeof out = typeof v, if typeof out = typeof v then v else out),
                  m, ?h' @ [Some (Scalar v)])"
    using f assms(2) by (intro Get_after [where va = va and es = ?es' and n = "length h"]) simp_all
  show ?thesis using s g assms(3) by simp
qed

theorem Set_Get_roundtrip_witness:
  "arrays_ok one_store one_heap \<and> 0 < mNumProperties one_store \<and>
   typeof (V_aiString ''old'') = typeof (V_aiString ''new'') \<and>
   (\<exists>h'. Set copy_key one_store one_heap 0 ''name'' (V_aiString ''new'') = Inr (one_store, h') \<and>
     Get one_store h' 0 (V_aiString ''old'') = Inr ((True, V_aiString ''new''), one_store, h'))"
proof -
  have a: "arrays_ok one_store one_heap" by (rule one_arrays_ok)
  have b: "0 < mNumProperties one_store" by (simp add: one_store_fields)
  have c: "typeof (V_aiString ''old'') = typeof (V_aiString ''new'')" by simp
  show ?thesis
    using a b c Set_Get_roundtrip [OF a b c, of copy_key "''name''"] by simp
qed

text \<open>
  C3, as the code has it. \<^verbatim>\<open>Set\<close> never releases anything. After \<^verbatim>\<open>Set(i, k1, v1)\<close>
  the entry at \<open>i\<close> points to a new block holding \<open>v1\<close>; after \<^verbatim>\<open>Set(i, k2, v2)\<close> it
  points to another new block, the block of \<open>v1\<close> is still allocated and still holds
  \<open>v1\<close>, and \<^verbatim>\<open>Get(i, out)\<close> sees \<open>v2\<close> only: it returns \<^verbatim>\<open>true\<close> with \<open>v2\<close> when \<open>out\<close>
  has the type of \<open>v2\<close>, and \<^verbatim>\<open>false\<close> with \<open>out\<close> unchanged otherwise.
\<close>

theorem Set_again_keeps_old_block:
  assumes "arrays_ok m h" and "i < mNumProperties m"
  shows "\<exists>h1 h2. Set asg m h i k1 v1 = Inr (m, h1) \<and>
           read_entry h1 (mValues m) i = Inr \<lparr>type = GetAiType v1, data = Some (length h)\<rparr> \<and>
           load h1 (Some (length h)) = Some (Scalar v1) \<and>
           Set asg m h1 i k2 v2 = Inr (m, h2) \<and>
           read_entry h2 (mValues m) i =
             Inr \<lparr>type = GetAiType v2, data = Some (Suc (length h))\<rparr> \<and>
           load h2 (Some (length h)) = Some (Scalar v1) \<and>
           Get m h2 i out =
             Inr ((typeof out = typeof v2, if typeof out = typeof v2 then v2 else out), m, h2)"
proof -
  from assms(1) obtain ka va ks es where f:
    "mKeys m = Some ka" "mValues m = Some va" "ka < length h" "va < length h"
    "h ! ka = Some (Key_array ks)" "h ! va = Some (Entry_array es)"
    "length ks = mNumProperties m" "length es = mNumProperties m" "ka \<noteq> va"
    by (rule arrays_okD)
  let ?ks1 = "ks[i := asg (ks ! i) k1]"
  let ?es1 = "es[i := \<lparr>type = GetAiType v1, data = Some (length h)\<rparr>]"
  let ?h1 = "h[ka := Some (Key_array ?ks1), va := Some (Entry_array ?es1)] @ [Some (Scalar v1)]"
  let ?ks2 = "?ks1[i := asg (?ks1 ! i) k2]"
  let ?es2 = "?es1[i := \<lparr>type = GetAiType v2, data = Some (length ?h1)\<rparr>]"
  let ?g2 = "?h1[ka := Some (Key_array ?ks2), va := Some (Entry_array ?es2)]"
  let ?h2 = "?g2 @ [Some (Scalar v2)]"
  have s1: "Set asg m h i k1 v1 = Inr (m, ?h1)"
    using f assms(2) by (intro Set_result) simp_all
  have r1: "read_entry ?h1 (mValues m) i = Inr \<lparr>type = GetAiType v1, data = Some (length h)\<rparr>"
    using f assms(2) by (simp add: read_entry_def load_def nth_append)
  have l1: "load ?h1 (Some (length h)) = Some (Scalar v1)"
    by (simp add: load_def nth_append)
  have s2: "Set asg m ?h1 i k2 v2 = Inr (m, ?h2)"
    using f assms(2) by (intro Set_result) (simp_all add: nth_append)
  have r2: "read_entry ?h2 (mValues m) i =
              Inr \<lparr>type = GetAiType v2, data = Some (Suc (length h))\<rparr>"
    using f assms(2) by (simp add: read_entry_def load_def nth_append)
  have l2: "load ?h2 (Some (length h)) = Some (Scalar v1)"
    using f by (simp add: load_def nth_append)
  have g2: "Get m ?h2 i out =
              Inr ((typeof out = typeof v2, if typeof out = typeof v2 then v2 else out), m, ?h2)"
    using f assms(2)
    by (intro Get_after [where va = va and es = ?es2 and n = "length ?h1"]) (simp_all add: nth_append)
  from s1 r1 l1 s2 r2 l2 g2 show ?thesis by blast
qed

theorem Set_again_keeps_old_block_witness:
  "arrays_ok one_store one_heap \<and> 0 < mNumProperties one_store \<and>
   (\<exists>h1 h2. Set copy_key one_store one_heap 0 ''k1'' (V_int 5) = Inr (one_store, h1) \<and>
      load h1 (Some 3) = Some (Scalar (V_int 5)) \<and>
      Set copy_key one_store h1 0 ''k2'' (V_bool True) = Inr (one_store, h2) \<and>
      load h2 (Some 3) = Some (Scalar (V_int 5)) \<and>
      Get one_store h2 0 (V_bool False) = Inr ((True, V_bool True), one_store, h2))"
proof -
  have a: "arrays_ok one_store one_heap" by (rule one_arrays_ok)
  have b: "0 < mNumProperties one_store" by (simp add: one_store_fields)
  have n: "length one_heap = 3" by (simp add: one_heap_def)
  from Set_again_keeps_old_block [OF a b, of copy_key "''k1''" "V_int 5" "''k2''" "V_bool True" "V_bool False"]
  obtain h1 h2 where
    "Set copy_key one_store one_heap 0 ''k1'' (V_int 5) = Inr (one_store, h1)"
    "load h1 (Some 3) = Some (Scalar (V_int 5))"
    "Set copy_key one_store h1 0 ''k2'' (V_bool True) = Inr (one_store, h2)"
    "load h2 (Some 3) = Some (Scalar (V_int 5))"
    "Get one_store h2 0 (V_bool False) = Inr ((True, V_bool True), one_store, h2)"
    unfolding n by auto
  with a b show ?thesis by blast
qed

text \<open>
  C3 as it is written fails. In \<open>one_heap\<close> the entry at index 0 owns block 2, an
  \<^verbatim>\<open>int\<close>. After \<^verbatim>\<open>Set(0, "k2", true)\<close> the entry points to the new block 3 and block
  2 is still allocated: the storage of the previous value was not released.
\<close>

theorem Set_releases_nothing_counterexample:
  "read_entry one_heap (mValues one_store) 0 = Inr \<lparr>type = AI_INT, data = Some 2\<rparr> \<and>
   load one_heap (Some 2) = Some (Scalar (V_int 7)) \<and>
   Set copy_key one_store one_heap 0 ''k2'' (V_bool True) =
     Inr (one_store,
       [Some (Key_array [''k2'']),
        Some (Entry_array [\<lparr>type = AI_BOOL, data = Some 3\<rparr>]),
        Some (Scalar (V_int 7)),
        Some (Scalar (V_bool True))]) \<and>
   load [Some (Key_array [''k2'']),
        Some (Entry_array [\<lparr>type = AI_BOOL, data = Some 3\<rparr>]),
        Some (Scalar (V_int 7)),
        Some (Scalar (V_bool True))] (Some 2) \<noteq> None"
  by (simp add: Set_def write_key_def write_entry_def operator_new_def read_entry_def load_def
      copy_key_def one_store_fields one_heap_def)

subsection \<open>Indices out of range\<close>

text \<open>
  C5. \<open>one_store\<close> has one property. \<^verbatim>\<open>Set\<close> at index 1 fails its assertion.
  \<^verbatim>\<open>Get\<close> at index 1 has no assertion: it reads \<^verbatim>\<open>mValues[1]\<close>, past the end of the
  array, which is undefined behaviour and not the assertion. And where the array is longer
  than \<^verbatim>\<open>mNumProperties\<close> says (here 3 elements against a count of 1), \<^verbatim>\<open>Get\<close> at index
  2 returns \<^verbatim>\<open>true\<close> with the value found there.
\<close>

theorem Get_out_of_range_unchecked:
  "Set copy_key one_store one_heap 1 ''x'' (V_int 3) = Inl Assert_failed \<and>
   Get one_store one_heap 1 (V_int 3) = Inl Undefined_behaviour \<and>
   Get (aba_store\<lparr>mNumProperties := 1\<rparr>) aba_heap 2 (V_bool False) =
     Inr ((True, V_bool True), aba_store\<lparr>mNumProperties := 1\<rparr>, aba_heap)"
  by (simp add: Set_def Get_def read_entry_def load_def deref_def one_store_fields one_heap_def
      aba_store_def aba_heap_def)

subsection \<open>Get by key\<close>

text \<open>
  The loop of \<^verbatim>\<open>Get(key, out)\<close> from index \<open>i\<close> on, on a key array that has at least
  \<^verbatim>\<open>mNumProperties\<close> elements.
\<close>

lemma Get_key_from_find:
  assumes "load h (mKeys m) = Some (Key_array ks)" and "mNumProperties m \<le> length ks"
  shows "Get_key_from m h key out i =
           (case find (\<lambda>j. ks ! j = key) [i..<mNumProperties m] of
              None \<Rightarrow> Inr ((False, out), m, h)
            | Some j \<Rightarrow> Get m h j out)"
proof (induction "mNumProperties m - i" arbitrary: i)
  case 0
  then show ?case by (subst Get_key_from.simps) simp
next
  case (Suc d)
  then have lt: "i < mNumProperties m" and d: "d = mNumProperties m - Suc i" by arith+
  have rk: "read_key h (mKeys m) i = Inr (ks ! i)"
    using assms lt by (simp add: read_key_def)
  have up: "[i..<mNumProperties m] = i # [Suc i..<mNumProperties m]"
    using lt by (simp add: upt_conv_Cons)
  show ?case
    using Suc.hyps(1)[OF d] lt rk
    by (subst Get_key_from.simps) (simp add: up)
qed

lemma first_match_Some:
  "first_match ks n key = Some j \<longleftrightarrow> j < n \<and> ks ! j = key \<and> (\<forall>i<j. ks ! i \<noteq> key)"
  unfolding first_match_def find_Some_iff
  by (auto simp: nth_upt)

lemma first_match_None: "first_match ks n key = None \<longleftrightarrow> (\<forall>i<n. ks ! i \<noteq> key)"
  unfolding first_match_def find_None_iff by auto

text \<open>
  C7. On a store whose key array has at least \<^verbatim>\<open>mNumProperties\<close> elements,
  \<^verbatim>\<open>Get(key, out)\<close> is \<^verbatim>\<open>Get(j, out)\<close> at the first index \<open>j\<close> below \<^verbatim>\<open>mNumProperties\<close>
  whose key equals \<open>key\<close>, whatever that call returns, and \<^verbatim>\<open>false\<close> with \<open>out\<close>
  unchanged when no key matches. The two lemmas before it say what \<open>first_match\<close> is.
\<close>

theorem Get_key_first_match:
  assumes "load h (mKeys m) = Some (Key_array ks)" and "mNumProperties m \<le> length ks"
  shows "Get_key m h key out =
           (case first_match ks (mNumProperties m) key of
              None \<Rightarrow> Inr ((False, out), m, h)
            | Some j \<Rightarrow> Get m h j out)"
  unfolding Get_key_def first_match_def by (rule Get_key_from_find [OF assms])

lemma aba_first_a: "first_match [''a'', ''b'', ''a''] 3 ''a'' = Some 0"
  by (simp add: first_match_def upt_conv_Cons)

lemma aba_keys: "load aba_heap (mKeys aba_store) = Some (Key_array [''a'', ''b'', ''a''])"
  by (simp add: load_def aba_store_fields aba_heap_def)

lemma aba_Get_0_int: "Get aba_store aba_heap 0 (V_int 0) = Inr ((True, V_int 1), aba_store, aba_heap)"
  by (simp add: Get_def read_entry_def load_def deref_def aba_store_fields aba_heap_def)

lemma aba_Get_0_bool:
  "Get aba_store aba_heap 0 (V_bool False) = Inr ((False, V_bool False), aba_store, aba_heap)"
  by (simp add: Get_def read_entry_def load_def deref_def aba_store_fields aba_heap_def)

text \<open>
  The spec's example: with the keys \<^verbatim>\<open>"a", "b", "a"\<close>, \<^verbatim>\<open>Get("a", intOut)\<close> finds the
  \<^verbatim>\<open>int\<close> 1 at index 0, and \<^verbatim>\<open>Get("a", boolOut)\<close> returns \<^verbatim>\<open>false\<close> although index 2
  holds a \<^verbatim>\<open>bool\<close> under the same key.
\<close>

theorem Get_key_first_match_witness:
  "load aba_heap (mKeys aba_store) = Some (Key_array [''a'', ''b'', ''a'']) \<and>
   mNumProperties aba_store \<le> length [''a'', ''b'', ''a''] \<and>
   Get_key aba_store aba_heap ''a'' (V_int 0) = Inr ((True, V_int 1), aba_store, aba_heap) \<and>
   Get_key aba_store aba_heap ''a'' (V_bool False) =
     Inr ((False, V_bool False), aba_store, aba_heap)"
proof -
  have a: "load aba_heap (mKeys aba_store) = Some (Key_array [''a'', ''b'', ''a''])"
    by (rule aba_keys)
  have b: "mNumProperties aba_store \<le> length [''a'', ''b'', ''a'']"
    by (simp add: aba_store_fields)
  show ?thesis
    using a b Get_key_first_match [OF a b, of "''a''" "V_int 0"]
      Get_key_first_match [OF a b, of "''a''" "V_bool False"]
    by (simp add: aba_store_fields aba_first_a aba_Get_0_int aba_Get_0_bool)
qed

subsection \<open>Get changes nothing\<close>

lemma Get_frame_index: "Get m h i out = Inr (r, m', h') \<Longrightarrow> m' = m \<and> h' = h"
  unfolding Get_def
  by (cases "read_entry h (mValues m) i")
     (simp_all split: if_splits sum.splits)

lemma Get_key_from_frame:
  "Get_key_from m h key out i = Inr (r, m', h') \<Longrightarrow> m' = m \<and> h' = h"
proof (induction "mNumProperties m - i" arbitrary: i)
  case 0
  then have "\<not> i < mNumProperties m" by simp
  with "0.prems" show ?case by (subst (asm) Get_key_from.simps) simp
next
  case (Suc d)
  then have lt: "i < mNumProperties m" and d: "d = mNumProperties m - Suc i" by arith+
  show ?case
  proof (cases "read_key h (mKeys m) i")
    case (Inl e)
    with Suc.prems lt show ?thesis by (subst (asm) Get_key_from.simps) simp
  next
    case (Inr k)
    show ?thesis
    proof (cases "k = key")
      case True
      with Suc.prems lt Inr have "Get m h i out = Inr (r, m', h')"
        by (subst (asm) Get_key_from.simps) simp
      then show ?thesis by (rule Get_frame_index)
    next
      case False
      with Suc.prems lt Inr have "Get_key_from m h key out (Suc i) = Inr (r, m', h')"
        by (subst (asm) Get_key_from.simps) simp
      then show ?thesis by (rule Suc.hyps(1)[OF d])
    qed
  qed
qed

text \<open>
  C10. Whenever \<^verbatim>\<open>Get(index, out)\<close> or \<^verbatim>\<open>Get(key, out)\<close> returns, with \<^verbatim>\<open>true\<close> or with
  \<^verbatim>\<open>false\<close>, the fields of the store and the whole heap (so the count, every key, every
  entry and every value an entry points to) are what they were before the call.
\<close>

theorem Get_leaves_store:
  "(Get m h i out = Inr (r, m', h') \<longrightarrow> m' = m \<and> h' = h) \<and>
   (Get_key m h key out = Inr (r, m', h') \<longrightarrow> m' = m \<and> h' = h)"
  unfolding Get_key_def using Get_frame_index Get_key_from_frame by blast

lemma aba_Get_key_a_int:
  "Get_key aba_store aba_heap ''a'' (V_int 0) = Inr ((True, V_int 1), aba_store, aba_heap)"
  unfolding Get_key_def
  by (simp add: Get_key_from_find [OF aba_keys] aba_store_fields upt_conv_Cons aba_Get_0_int)

theorem Get_leaves_store_witness:
  "Get aba_store aba_heap 0 (V_int 0) = Inr ((True, V_int 1), aba_store, aba_heap) \<and>
   Get_key aba_store aba_heap ''a'' (V_int 0) = Inr ((True, V_int 1), aba_store, aba_heap)"
  using Get_leaves_store [of aba_store aba_heap 0 "V_int 0" "(True, V_int 1)" aba_store aba_heap "''a''"]
  by (simp add: aba_Get_0_int aba_Get_key_a_int)

end
